theory Spec2Isabelle
  imports Main "HOL-Library.Word"
begin

section \<open>The GC sample: fast object allocator and write barrier\<close>

text \<open>
  A shallow embedding of \<^verbatim>\<open>src/gc/sample/GCSample.cpp\<close>: the functions
  \<^verbatim>\<open>AllocateObject\<close>, \<^verbatim>\<open>ErectWriteBarrier\<close> and \<^verbatim>\<open>WriteBarrier\<close>.

  Pointers and \<^verbatim>\<open>size_t\<close> values are machine words of the pointer width
  \<open>LENGTH('a)\<close>: pointer addition wraps around and pointer comparison is unsigned.
  The records and the events below are written over the type \<open>'p\<close> of pointers, which
  the functions take as \<open>'a word\<close>.
  The memory the three functions touch is kept in typed parts, as the C++ types keep
  them apart: the thread's \<^verbatim>\<open>alloc_context\<close>, the pointer-sized cells of objects
  (\<^verbatim>\<open>Object *\<close> fields and the \<^verbatim>\<open>MethodTable *\<close> header), and the bytes of the
  card table.
\<close>

subsection \<open>Data\<close>

text \<open>\<^verbatim>\<open>nullptr\<close>.\<close>

definition nullptr :: "'a::len word" where
  "nullptr = 0"

text \<open>
  \<^verbatim>\<open>alloc_context\<close>: the two fields \<^verbatim>\<open>AllocateObject\<close> reads and writes,
  both \<^verbatim>\<open>BYTE*\<close>.
\<close>

record 'p alloc_context =
  alloc_ptr :: 'p
  alloc_limit :: 'p

text \<open>
  The state of the process as far as the sample's fast paths see it.
  \<^item> \<open>acontext\<close> is \<^verbatim>\<open>*GetThread()->GetAllocContext()\<close> (the sample is single threaded).
  \<^item> \<open>GetBaseSize s pMT\<close> is what \<^verbatim>\<open>pMT->GetBaseSize()\<close> returns, converted to
    \<^verbatim>\<open>size_t\<close>; the class \<^verbatim>\<open>MethodTable\<close> is declared outside this file, so the
    accessor is taken as it is, with every \<^verbatim>\<open>size_t\<close> value possible.
  \<^item> \<open>cells s a\<close> is the pointer-sized cell at address \<open>a\<close>.
  \<^item> \<open>g_lowest_address\<close>, \<open>g_highest_address\<close>, \<open>g_ephemeral_low\<close>,
    \<open>g_ephemeral_high\<close> and \<open>g_card_table\<close> are the collector's globals.
  \<^item> \<open>card_bytes s a\<close> is the byte at address \<open>a\<close> of the memory that holds the card table.
\<close>

record 'p gc_state =
  acontext :: "'p alloc_context"
  GetBaseSize :: "'p \<Rightarrow> 'p"
  cells :: "'p \<Rightarrow> 'p"
  g_lowest_address :: 'p
  g_highest_address :: 'p
  g_ephemeral_low :: 'p
  g_ephemeral_high :: 'p
  g_card_table :: 'p
  card_bytes :: "'p \<Rightarrow> 8 word"

text \<open>
  What a function did, in program order: the stores it issued and the calls it made to
  the collector's allocator. \<open>CallAlloc c size flags\<close> records a call
  \<^verbatim>\<open>GCHeap::GetGCHeap()->Alloc(acontext, size, flags)\<close> made when the allocation
  context held \<open>c\<close>.
\<close>

datatype 'p event =
    StoreCell 'p 'p
  | StoreByte 'p "8 word"
  | CallAlloc "'p alloc_context" 'p "32 word"

fun is_CallAlloc :: "'p event \<Rightarrow> bool" where
  "is_CallAlloc (CallAlloc c n f) = True"
| "is_CallAlloc e = False"

fun is_StoreByte :: "'p event \<Rightarrow> bool" where
  "is_StoreByte (StoreByte a v) = True"
| "is_StoreByte e = False"

text \<open>
  \<^verbatim>\<open>GCHeap::Alloc\<close> belongs to the collector. It receives the allocation context by
  pointer and may change it and anything else (it may run a collection), so it is a
  parameter of the model: any function from the state, the size and the flags to the
  returned pointer and the new state.
\<close>

type_synonym 'p gc_alloc = "'p gc_state \<Rightarrow> 'p \<Rightarrow> 32 word \<Rightarrow> 'p \<times> 'p gc_state"

subsection \<open>The allocator\<close>

text \<open>
  Modelled from the spec: \<^verbatim>\<open>Object::SetMethodTable\<close> is declared outside this file;
  the spec's object header layout ("first machine word is the descriptor reference")
  makes it the store of \<open>pMT\<close> into the cell at the object's own address.
\<close>

definition SetMethodTable :: "'a::len word \<Rightarrow> 'a word \<Rightarrow> 'a word gc_state \<Rightarrow> 'a word gc_state" where
  "SetMethodTable pObject pMT s = s\<lparr>cells := (cells s)(pObject := pMT)\<rparr>"

text \<open>
  \<^verbatim>\<open>Object * AllocateObject(MethodTable * pMT)\<close>. The result is the returned pointer and
  the state after the call, with the events of the call.
\<close>

definition AllocateObject ::
  "'a::len word gc_alloc \<Rightarrow> 'a word \<Rightarrow> 'a word gc_state \<Rightarrow>
     ('a word \<times> 'a word gc_state) \<times> 'a word event list" where
  "AllocateObject heap_Alloc pMT s =
    (let size = GetBaseSize s pMT;
         result = alloc_ptr (acontext s);
         advance = result + size
     in if advance \<le> alloc_limit (acontext s)
        then ((result, SetMethodTable result pMT (s\<lparr>acontext := (acontext s)\<lparr>alloc_ptr := advance\<rparr>\<rparr>)),
              [StoreCell result pMT])
        else (case heap_Alloc s size 0 of (pObject, s1) \<Rightarrow>
               if pObject = nullptr
               then ((nullptr, s1), [CallAlloc (acontext s) size 0])
               else ((pObject, SetMethodTable pObject pMT s1),
                     [CallAlloc (acontext s) size 0, StoreCell pObject pMT])))"


subsection \<open>The write barrier\<close>

text \<open>
  \<^verbatim>\<open>card_byte_shift\<close> is 11 where \<^verbatim>\<open>_WIN64\<close> is defined and 10 elsewhere;
  \<^verbatim>\<open>_WIN64\<close> is defined on the targets whose pointers have 64 bits.
\<close>

definition card_byte_shift :: "'a::len itself \<Rightarrow> nat" where
  "card_byte_shift w = (if LENGTH('a) = 64 then 11 else 10)"

text \<open>\<^verbatim>\<open>#define card_byte(addr) (((size_t)(addr)) >> card_byte_shift)\<close>\<close>

definition card_byte :: "'a::len word \<Rightarrow> 'a word" where
  "card_byte addr = drop_bit (card_byte_shift TYPE('a)) addr"

text \<open>\<^verbatim>\<open>inline void ErectWriteBarrier(Object ** dst, Object * ref)\<close>\<close>

definition ErectWriteBarrier ::
  "'a::len word \<Rightarrow> 'a word \<Rightarrow> 'a word gc_state \<Rightarrow> 'a word gc_state \<times> 'a word event list" where
  "ErectWriteBarrier dst ref s =
    (if dst < g_lowest_address s \<or> dst \<ge> g_highest_address s then (s, [])
     else if ref \<ge> g_ephemeral_low s \<and> ref < g_ephemeral_high s
     then (let pCardByte = g_card_table s + card_byte dst
           in if card_bytes s pCardByte \<noteq> 0xFF
              then (s\<lparr>card_bytes := (card_bytes s)(pCardByte := 0xFF)\<rparr>, [StoreByte pCardByte 0xFF])
              else (s, []))
     else (s, []))"

text \<open>\<^verbatim>\<open>void WriteBarrier(Object ** dst, Object * ref)\<close>\<close>

definition WriteBarrier ::
  "'a::len word \<Rightarrow> 'a word \<Rightarrow> 'a word gc_state \<Rightarrow> 'a word gc_state \<times> 'a word event list" where
  "WriteBarrier dst ref s =
    (case ErectWriteBarrier dst ref (s\<lparr>cells := (cells s)(dst := ref)\<rparr>) of
       (s1, evs) \<Rightarrow> (s1, StoreCell dst ref # evs))"

subsection \<open>Regions and test states\<close>


text \<open>The address one call returned, and the addresses a sequence of calls returned.\<close>

definition returned :: "('a word \<times> 'a word gc_state) \<times> 'a word event list \<Rightarrow> 'a word" where
  "returned r = fst (fst r)"

definition state_after :: "('a word \<times> 'a word gc_state) \<times> 'a word event list \<Rightarrow> 'a word gc_state" where
  "state_after r = snd (fst r)"

definition events_of :: "('a word \<times> 'a word gc_state) \<times> 'a word event list \<Rightarrow> 'a word event list" where
  "events_of r = snd r"

text \<open>
  A 64-bit state to run the functions on. Two descriptors: the one at \<open>0x500\<close> has the
  base size of \<^verbatim>\<open>My_MethodTable\<close> in \<^verbatim>\<open>main\<close>, \<^verbatim>\<open>3 * sizeof(void *)\<close>; every other
  one, as the one at \<open>0x600\<close>, has base size 0. The bump region is
  \<open>[0x10000, 0x10040)\<close>, the heap \<open>[0x10000, 0x40000)\<close>, its ephemeral part
  \<open>[0x10000, 0x20000)\<close>; no card is marked.
\<close>

definition sample_state :: "64 word gc_state" where
  "sample_state =
     \<lparr>acontext = \<lparr>alloc_ptr = 0x10000, alloc_limit = 0x10040\<rparr>,
      GetBaseSize = (\<lambda>pMT. if pMT = 0x500 then 24 else 0),
      cells = (\<lambda>a. 0),
      g_lowest_address = 0x10000,
      g_highest_address = 0x40000,
      g_ephemeral_low = 0x10000,
      g_ephemeral_high = 0x20000,
      g_card_table = 0x80000,
      card_bytes = (\<lambda>a. 0)\<rparr>"

text \<open>The same state with an exhausted bump region: 8 bytes are left.\<close>

definition exhausted_state :: "64 word gc_state" where
  "exhausted_state = sample_state\<lparr>acontext := \<lparr>alloc_ptr = 0x10038, alloc_limit = 0x10040\<rparr>\<rparr>"

text \<open>
  Two stand-ins for the collector's \<^verbatim>\<open>Alloc\<close>: one that is out of memory, and one that
  gives the context the fresh region \<open>[0x20000, 0x30000)\<close> and allocates at its start.
\<close>

definition Alloc_oom :: "64 word gc_alloc" where
  "Alloc_oom s sz flags = (nullptr, s)"

definition Alloc_fresh :: "64 word gc_alloc" where
  "Alloc_fresh s sz flags =
     (0x20000, s\<lparr>acontext := \<lparr>alloc_ptr = 0x20000 + sz, alloc_limit = 0x30000\<rparr>\<rparr>)"

text \<open>The sample state after the card of address \<open>0x10008\<close> has been marked.\<close>

definition marked_state :: "64 word gc_state" where
  "marked_state = sample_state\<lparr>card_bytes := (card_bytes sample_state)(0x80020 := 0xFF)\<rparr>"

text \<open>
  A 32-bit state whose one descriptor has the base size \<open>0xfffffff0\<close>: added to the
  cursor \<open>0x10020\<close> it passes the end of the address space. The bump region is
  \<open>[0x10020, 0x10040)\<close>. With it, the collector's \<^verbatim>\<open>Alloc\<close> out of memory at 32 bits.
\<close>

definition wrapping_state :: "32 word gc_state" where
  "wrapping_state =
     \<lparr>acontext = \<lparr>alloc_ptr = 0x10020, alloc_limit = 0x10040\<rparr>,
      GetBaseSize = (\<lambda>pMT. 0xfffffff0),
      cells = (\<lambda>a. 0),
      g_lowest_address = 0x10000,
      g_highest_address = 0x40000,
      g_ephemeral_low = 0x10000,
      g_ephemeral_high = 0x20000,
      g_card_table = 0x80000,
      card_bytes = (\<lambda>a. 0)\<rparr>"

definition Alloc_oom32 :: "32 word gc_alloc" where
  "Alloc_oom32 s sz flags = (nullptr, s)"

section \<open>The allocator's two paths\<close>



lemma AllocateObject_fast:
  assumes "alloc_ptr (acontext s) + GetBaseSize s pMT \<le> alloc_limit (acontext s)"
  shows "AllocateObject heap_Alloc pMT s =
     ((alloc_ptr (acontext s),
       SetMethodTable (alloc_ptr (acontext s)) pMT
         (s\<lparr>acontext := (acontext s)\<lparr>alloc_ptr := alloc_ptr (acontext s) + GetBaseSize s pMT\<rparr>\<rparr>)),
      [StoreCell (alloc_ptr (acontext s)) pMT])"
  using assms by (simp add: AllocateObject_def Let_def)

lemma AllocateObject_slow:
  assumes "\<not> alloc_ptr (acontext s) + GetBaseSize s pMT \<le> alloc_limit (acontext s)"
  shows "AllocateObject heap_Alloc pMT s =
     (let r = heap_Alloc s (GetBaseSize s pMT) 0
      in if fst r = nullptr
         then ((nullptr, snd r), [CallAlloc (acontext s) (GetBaseSize s pMT) 0])
         else ((fst r, SetMethodTable (fst r) pMT (snd r)),
               [CallAlloc (acontext s) (GetBaseSize s pMT) 0, StoreCell (fst r) pMT]))"
  using assms by (simp add: AllocateObject_def Let_def split: prod.splits)

text \<open>
  C1. A call of \<^verbatim>\<open>AllocateObject\<close> on a context with \<open>cursor + size \<le> limit\<close>, the
  sum and the comparison being the code's own (\<^verbatim>\<open>result + size <= acontext->alloc_limit\<close>),
  returns the cursor it found, leaves the cursor at \<open>cursor + size\<close> and the limit where
  it was, and does not call the collector's \<^verbatim>\<open>Alloc\<close>, whatever that function is.
  A sum that fits as a number (\<open>fast_path_le\<close>) is such a sum.
\<close>

theorem AllocateObject_fast_path:
  assumes "alloc_ptr (acontext s) + GetBaseSize s pMT \<le> alloc_limit (acontext s)"
  shows "returned (AllocateObject heap_Alloc pMT s) = alloc_ptr (acontext s)
    \<and> alloc_ptr (acontext (state_after (AllocateObject heap_Alloc pMT s)))
        = alloc_ptr (acontext s) + GetBaseSize s pMT
    \<and> alloc_limit (acontext (state_after (AllocateObject heap_Alloc pMT s)))
        = alloc_limit (acontext s)
    \<and> \<not> list_ex is_CallAlloc (events_of (AllocateObject heap_Alloc pMT s))"
  by (simp add: AllocateObject_fast [OF assms] returned_def state_after_def events_of_def
      SetMethodTable_def)

theorem AllocateObject_fast_path_witness:
  "alloc_ptr (acontext sample_state) + GetBaseSize sample_state 0x500
      \<le> alloc_limit (acontext sample_state)
   \<and> returned (AllocateObject Alloc_oom 0x500 sample_state) = 0x10000
   \<and> alloc_ptr (acontext (state_after (AllocateObject Alloc_oom 0x500 sample_state))) = 0x10018
   \<and> alloc_limit (acontext (state_after (AllocateObject Alloc_oom 0x500 sample_state))) = 0x10040
   \<and> \<not> list_ex is_CallAlloc (events_of (AllocateObject Alloc_oom 0x500 sample_state))"
proof -
  have h: "alloc_ptr (acontext sample_state) + GetBaseSize sample_state 0x500
      \<le> alloc_limit (acontext sample_state)"
    by (simp add: sample_state_def)
  show ?thesis
    using h AllocateObject_fast_path [OF h, of Alloc_oom] by (simp add: sample_state_def)
qed

text \<open>
  C5, as the code has it. The code compares the pointer sum \<^verbatim>\<open>result + size\<close>, which
  has the width of a pointer, with the limit. On the 32-bit state above the request
  exceeds what is left of the region, as numbers \<open>cursor + size > limit\<close>, but the sum
  passes the end of the address space and comes out below the limit: the fast path
  serves the request, moves the cursor (backwards, to \<open>0x10010\<close>) and the collector's
  \<^verbatim>\<open>Alloc\<close> is not called.
\<close>

theorem AllocateObject_wrapping_counterexample:
  "unat (alloc_limit (acontext wrapping_state))
     < unat (alloc_ptr (acontext wrapping_state)) + unat (GetBaseSize wrapping_state 0x500)
   \<and> returned (AllocateObject Alloc_oom32 0x500 wrapping_state) = 0x10020
   \<and> acontext (state_after (AllocateObject Alloc_oom32 0x500 wrapping_state))
        = \<lparr>alloc_ptr = 0x10010, alloc_limit = 0x10040\<rparr>
   \<and> events_of (AllocateObject Alloc_oom32 0x500 wrapping_state) = [StoreCell 0x10020 0x500]"
  by (simp add: AllocateObject_def returned_def state_after_def events_of_def
      SetMethodTable_def wrapping_state_def Let_def)

text \<open>
  C5, amended. A call of \<^verbatim>\<open>AllocateObject\<close> where \<open>cursor + size\<close>, computed as the
  code computes it (the pointer sum \<^verbatim>\<open>result + size\<close>, modulo 2 to the pointer width),
  is greater than the limit calls the collector's \<^verbatim>\<open>Alloc\<close> exactly once, with the
  size, the flags 0 and the allocation context as the call found it; what it returns is
  what \<^verbatim>\<open>Alloc\<close> returned, and the context after the call is the one \<^verbatim>\<open>Alloc\<close>
  left: the fast path wrote neither the cursor nor the limit.
\<close>

theorem AllocateObject_slow_path:
  assumes "\<not> alloc_ptr (acontext s) + GetBaseSize s pMT \<le> alloc_limit (acontext s)"
  shows "filter is_CallAlloc (events_of (AllocateObject heap_Alloc pMT s))
           = [CallAlloc (acontext s) (GetBaseSize s pMT) 0]
    \<and> returned (AllocateObject heap_Alloc pMT s) = fst (heap_Alloc s (GetBaseSize s pMT) 0)
    \<and> acontext (state_after (AllocateObject heap_Alloc pMT s))
        = acontext (snd (heap_Alloc s (GetBaseSize s pMT) 0))"
  by (simp add: AllocateObject_slow [OF assms] returned_def state_after_def events_of_def
      SetMethodTable_def Let_def)

theorem AllocateObject_slow_path_witness:
  "\<not> alloc_ptr (acontext exhausted_state) + GetBaseSize exhausted_state 0x500
      \<le> alloc_limit (acontext exhausted_state)
   \<and> filter is_CallAlloc (events_of (AllocateObject Alloc_oom 0x500 exhausted_state))
           = [CallAlloc \<lparr>alloc_ptr = 0x10038, alloc_limit = 0x10040\<rparr> 24 0]
   \<and> returned (AllocateObject Alloc_oom 0x500 exhausted_state) = 0
   \<and> acontext (state_after (AllocateObject Alloc_oom 0x500 exhausted_state))
        = \<lparr>alloc_ptr = 0x10038, alloc_limit = 0x10040\<rparr>"
proof -
  have h: "\<not> alloc_ptr (acontext exhausted_state) + GetBaseSize exhausted_state 0x500
      \<le> alloc_limit (acontext exhausted_state)"
    by (simp add: exhausted_state_def sample_state_def)
  show ?thesis
    using h AllocateObject_slow_path [OF h, of Alloc_oom]
    by (simp add: exhausted_state_def sample_state_def Alloc_oom_def nullptr_def)
qed

text \<open>
  C9. When \<^verbatim>\<open>AllocateObject\<close> returns an object, by the fast path or as a pointer other
  than \<^verbatim>\<open>nullptr\<close> from the collector's \<^verbatim>\<open>Alloc\<close>, the first word of the object holds
  the descriptor \<open>pMT\<close> when the call returns, and that store is the last thing the call
  did.
\<close>

theorem AllocateObject_header:
  assumes "alloc_ptr (acontext s) + GetBaseSize s pMT \<le> alloc_limit (acontext s)
           \<or> returned (AllocateObject heap_Alloc pMT s) \<noteq> nullptr"
  shows "cells (state_after (AllocateObject heap_Alloc pMT s))
           (returned (AllocateObject heap_Alloc pMT s)) = pMT
    \<and> last (events_of (AllocateObject heap_Alloc pMT s))
        = StoreCell (returned (AllocateObject heap_Alloc pMT s)) pMT"
proof (cases "alloc_ptr (acontext s) + GetBaseSize s pMT \<le> alloc_limit (acontext s)")
  case True
  then show ?thesis
    by (simp add: AllocateObject_fast returned_def state_after_def events_of_def
        SetMethodTable_def)
next
  case False
  with assms have "returned (AllocateObject heap_Alloc pMT s) \<noteq> nullptr" by simp
  with False have "fst (heap_Alloc s (GetBaseSize s pMT) 0) \<noteq> nullptr"
    by (simp add: AllocateObject_slow returned_def Let_def split: if_splits)
  with False show ?thesis
    by (simp add: AllocateObject_slow returned_def state_after_def events_of_def
        SetMethodTable_def Let_def)
qed

theorem AllocateObject_header_witness:
  "returned (AllocateObject Alloc_fresh 0x500 exhausted_state) = 0x20000
   \<and> returned (AllocateObject Alloc_fresh 0x500 exhausted_state) \<noteq> nullptr
   \<and> cells (state_after (AllocateObject Alloc_fresh 0x500 exhausted_state)) 0x20000 = 0x500
   \<and> last (events_of (AllocateObject Alloc_fresh 0x500 exhausted_state))
        = StoreCell 0x20000 0x500"
proof -
  have r: "returned (AllocateObject Alloc_fresh 0x500 exhausted_state) = 0x20000"
    by (simp add: AllocateObject_def returned_def exhausted_state_def sample_state_def
        Alloc_fresh_def nullptr_def Let_def)
  have h: "alloc_ptr (acontext exhausted_state) + GetBaseSize exhausted_state 0x500
         \<le> alloc_limit (acontext exhausted_state)
       \<or> returned (AllocateObject Alloc_fresh 0x500 exhausted_state) \<noteq> nullptr"
    by (simp add: r nullptr_def)
  show ?thesis
    using r AllocateObject_header [OF h] by (simp add: nullptr_def)
qed

text \<open>
  C8, as the code has it. \<^verbatim>\<open>AllocateObject\<close> does not look at the size before it uses
  it, and its only failure is the \<^verbatim>\<open>nullptr\<close> of the collector's \<^verbatim>\<open>Alloc\<close>. On the
  sample state a descriptor of base size 0 is given an object at the cursor.
\<close>

theorem AllocateObject_zero_size_counterexample:
  "GetBaseSize sample_state 0x600 = 0
   \<and> returned (AllocateObject Alloc_oom 0x600 sample_state) = 0x10000
   \<and> returned (AllocateObject Alloc_oom 0x600 sample_state) \<noteq> nullptr
   \<and> events_of (AllocateObject Alloc_oom 0x600 sample_state) = [StoreCell 0x10000 0x600]"
  by (simp add: AllocateObject_def returned_def events_of_def sample_state_def nullptr_def
      Let_def)

text \<open>
  C8, amended. A request of size 0 is not rejected as an error: on a context whose
  cursor is not \<^verbatim>\<open>nullptr\<close> and has \<open>cursor \<le> limit\<close> the fast path serves it. The
  call returns the cursor, which is not the failure value \<^verbatim>\<open>nullptr\<close>, leaves the
  context as it was, writes the descriptor into the header and does not call the
  collector's \<^verbatim>\<open>Alloc\<close>.
\<close>

theorem AllocateObject_zero_size:
  assumes "GetBaseSize s pMT = 0"
    and "alloc_ptr (acontext s) \<noteq> nullptr"
    and "alloc_ptr (acontext s) \<le> alloc_limit (acontext s)"
  shows "returned (AllocateObject heap_Alloc pMT s) = alloc_ptr (acontext s)
    \<and> returned (AllocateObject heap_Alloc pMT s) \<noteq> nullptr
    \<and> acontext (state_after (AllocateObject heap_Alloc pMT s)) = acontext s
    \<and> cells (state_after (AllocateObject heap_Alloc pMT s)) (alloc_ptr (acontext s)) = pMT
    \<and> events_of (AllocateObject heap_Alloc pMT s) = [StoreCell (alloc_ptr (acontext s)) pMT]"
proof -
  from assms have "alloc_ptr (acontext s) + GetBaseSize s pMT \<le> alloc_limit (acontext s)"
    by simp
  then show ?thesis
    using assms(1,2)
    by (simp add: AllocateObject_fast returned_def state_after_def events_of_def
        SetMethodTable_def)
qed

theorem AllocateObject_zero_size_witness:
  "GetBaseSize sample_state 0x700 = 0
   \<and> alloc_ptr (acontext sample_state) \<noteq> nullptr
   \<and> alloc_ptr (acontext sample_state) \<le> alloc_limit (acontext sample_state)
   \<and> returned (AllocateObject Alloc_fresh 0x700 sample_state) = 0x10000
   \<and> returned (AllocateObject Alloc_fresh 0x700 sample_state) \<noteq> nullptr
   \<and> acontext (state_after (AllocateObject Alloc_fresh 0x700 sample_state))
        = \<lparr>alloc_ptr = 0x10000, alloc_limit = 0x10040\<rparr>
   \<and> cells (state_after (AllocateObject Alloc_fresh 0x700 sample_state)) 0x10000 = 0x700
   \<and> events_of (AllocateObject Alloc_fresh 0x700 sample_state) = [StoreCell 0x10000 0x700]"
proof -
  have h1: "GetBaseSize sample_state 0x700 = 0"
    by (simp add: sample_state_def)
  have h2: "alloc_ptr (acontext sample_state) \<noteq> nullptr"
    by (simp add: sample_state_def nullptr_def)
  have h3: "alloc_ptr (acontext sample_state) \<le> alloc_limit (acontext sample_state)"
    by (simp add: sample_state_def)
  show ?thesis
    using h1 h2 h3 AllocateObject_zero_size [OF h1 h2 h3, of Alloc_fresh]
    by (simp add: sample_state_def)
qed

section \<open>Sequences of allocations within one region\<close>

















section \<open>The write barrier\<close>

lemma ErectWriteBarrier_outside:
  assumes "dst < g_lowest_address s \<or> g_highest_address s \<le> dst"
  shows "ErectWriteBarrier dst ref s = (s, [])"
  using assms by (auto simp add: ErectWriteBarrier_def)

lemma ErectWriteBarrier_marked:
  assumes "card_bytes s (g_card_table s + card_byte dst) = 0xFF"
  shows "ErectWriteBarrier dst ref s = (s, [])"
  using assms by (simp add: ErectWriteBarrier_def Let_def)

lemma ErectWriteBarrier_cells:
  "cells (fst (ErectWriteBarrier dst ref s)) = cells s"
  by (simp add: ErectWriteBarrier_def Let_def)

lemma ErectWriteBarrier_twice:
  "ErectWriteBarrier dst ref (fst (ErectWriteBarrier dst ref s))
     = (fst (ErectWriteBarrier dst ref s), [])"
  by (simp add: ErectWriteBarrier_def Let_def)

lemma card_byte_shift_64: "card_byte_shift TYPE(64) = 11"
  by (simp add: card_byte_shift_def)

lemma card_byte_shift_32: "card_byte_shift TYPE(32) = 10"
  by (simp add: card_byte_shift_def)

text \<open>
  C2. After \<^verbatim>\<open>WriteBarrier(dst, ref)\<close> with \<open>dst\<close> in
  \<open>[g_lowest_address, g_highest_address)\<close> and \<open>ref\<close> in
  \<open>[g_ephemeral_low, g_ephemeral_high)\<close>, the byte of the card table at index
  \<open>dst >> card_byte_shift\<close> holds \<open>0xFF\<close>; the shift is 11 for 64-bit pointers and 10
  for 32-bit pointers.
\<close>

theorem WriteBarrier_marks_card:
  fixes dst :: "'a::len word"
  assumes "g_lowest_address s \<le> dst" and "dst < g_highest_address s"
    and "g_ephemeral_low s \<le> ref" and "ref < g_ephemeral_high s"
  shows "card_bytes (fst (WriteBarrier dst ref s))
           (g_card_table s + drop_bit (card_byte_shift TYPE('a)) dst) = 0xFF
    \<and> card_byte_shift TYPE(64) = 11 \<and> card_byte_shift TYPE(32) = 10"
proof -
  from assms have "\<not> (dst < g_lowest_address s \<or> g_highest_address s \<le> dst)"
    by (simp add: not_less not_le)
  with assms(3,4) show ?thesis
    by (simp add: WriteBarrier_def ErectWriteBarrier_def card_byte_def Let_def
        card_byte_shift_64 card_byte_shift_32)
qed

theorem WriteBarrier_marks_card_witness:
  "g_lowest_address sample_state \<le> 0x10008 \<and> 0x10008 < g_highest_address sample_state
   \<and> g_ephemeral_low sample_state \<le> 0x10020 \<and> 0x10020 < g_ephemeral_high sample_state
   \<and> card_bytes sample_state 0x80020 = 0
   \<and> card_bytes (fst (WriteBarrier 0x10008 0x10020 sample_state)) 0x80020 = 0xFF"
proof -
  have h1: "g_lowest_address sample_state \<le> 0x10008"
    and h2: "0x10008 < g_highest_address sample_state"
    and h3: "g_ephemeral_low sample_state \<le> 0x10020"
    and h4: "0x10020 < g_ephemeral_high sample_state"
    by (simp_all add: sample_state_def)
  have a: "g_card_table sample_state + drop_bit (card_byte_shift TYPE(64)) (0x10008 :: 64 word)
      = 0x80020"
    by (simp add: sample_state_def card_byte_shift_64 drop_bit_eq_div)
  have b: "card_bytes sample_state 0x80020 = 0"
    by (simp add: sample_state_def)
  show ?thesis
    using h1 h2 h3 h4 b WriteBarrier_marks_card [OF h1 h2 h3 h4] by (simp add: a)
qed

text \<open>
  C3. \<^verbatim>\<open>WriteBarrier(dst, ref)\<close> stores \<open>ref\<close> into \<open>*dst\<close> for all arguments and
  all heap bounds: the store is the first thing the call does, whatever follows is a
  store into the card table, and after the call \<open>*dst\<close> is \<open>ref\<close>.
\<close>

theorem WriteBarrier_stores_first:
  "cells (fst (WriteBarrier dst ref s)) dst = ref
   \<and> hd (snd (WriteBarrier dst ref s)) = StoreCell dst ref
   \<and> list_all is_StoreByte (tl (snd (WriteBarrier dst ref s)))"
  by (simp add: WriteBarrier_def ErectWriteBarrier_def Let_def split: prod.splits)

theorem WriteBarrier_stores_first_witness:
  "cells (fst (WriteBarrier 0x8 nullptr sample_state)) 0x8 = nullptr
   \<and> hd (snd (WriteBarrier 0x8 nullptr sample_state)) = StoreCell 0x8 nullptr
   \<and> list_all is_StoreByte (tl (snd (WriteBarrier 0x8 nullptr sample_state)))"
  by (rule WriteBarrier_stores_first)

text \<open>
  C6. After \<^verbatim>\<open>WriteBarrier(dst, ref)\<close> with \<open>dst\<close> outside
  \<open>[g_lowest_address, g_highest_address)\<close> every byte of the card table is what it was:
  the call returns after the store into \<open>*dst\<close> and issues no store into the card
  table.
\<close>

theorem WriteBarrier_outside_heap:
  assumes "dst < g_lowest_address s \<or> g_highest_address s \<le> dst"
  shows "card_bytes (fst (WriteBarrier dst ref s)) = card_bytes s
     \<and> snd (WriteBarrier dst ref s) = [StoreCell dst ref]"
  using assms
  by (simp add: WriteBarrier_def ErectWriteBarrier_outside)

theorem WriteBarrier_outside_heap_witness:
  "0x8 < g_lowest_address sample_state
   \<and> card_bytes (fst (WriteBarrier 0x8 0x10020 sample_state)) = card_bytes sample_state
   \<and> snd (WriteBarrier 0x8 0x10020 sample_state) = [StoreCell 0x8 0x10020]"
proof -
  have l: "0x8 < g_lowest_address sample_state"
    by (simp add: sample_state_def)
  then have h: "0x8 < g_lowest_address sample_state \<or> g_highest_address sample_state \<le> 0x8"
    by (rule disjI1)
  show ?thesis
    using l WriteBarrier_outside_heap [OF h] by simp
qed

text \<open>
  C7. \<^verbatim>\<open>WriteBarrier\<close> called twice in succession with the same arguments leaves the
  state the first call left: the same card table, the same stored field, the same
  everything else.
\<close>

theorem WriteBarrier_idempotent:
  "fst (WriteBarrier dst ref (fst (WriteBarrier dst ref s))) = fst (WriteBarrier dst ref s)"
proof -
  obtain s1 evs where e: "ErectWriteBarrier dst ref (s\<lparr>cells := (cells s)(dst := ref)\<rparr>) = (s1, evs)"
    by (cases "ErectWriteBarrier dst ref (s\<lparr>cells := (cells s)(dst := ref)\<rparr>)")
  have c: "cells s1 = (cells s)(dst := ref)"
    using ErectWriteBarrier_cells [of dst ref "s\<lparr>cells := (cells s)(dst := ref)\<rparr>"] e by simp
  have "s1\<lparr>cells := (cells s1)(dst := ref)\<rparr> = s1"
    by (simp add: c)
  moreover have "ErectWriteBarrier dst ref s1 = (s1, [])"
    using ErectWriteBarrier_twice [of dst ref "s\<lparr>cells := (cells s)(dst := ref)\<rparr>"] e by simp
  ultimately show ?thesis
    by (simp add: WriteBarrier_def e)
qed

theorem WriteBarrier_idempotent_witness:
  "fst (WriteBarrier 0x10008 0x10020 (fst (WriteBarrier 0x10008 0x10020 sample_state)))
     = fst (WriteBarrier 0x10008 0x10020 sample_state)"
  by (rule WriteBarrier_idempotent)

text \<open>
  C10. When the byte of the card table at index \<open>dst >> card_byte_shift\<close> already holds
  \<open>0xFF\<close>, \<^verbatim>\<open>WriteBarrier(dst, ref)\<close> issues no store into the card table: the only
  store of the call is the one into \<open>*dst\<close>, and the card table is what it was.
\<close>

theorem WriteBarrier_marked_card_no_store:
  assumes "card_bytes s (g_card_table s + card_byte dst) = 0xFF"
  shows "snd (WriteBarrier dst ref s) = [StoreCell dst ref]
     \<and> card_bytes (fst (WriteBarrier dst ref s)) = card_bytes s"
  using assms
  by (simp add: WriteBarrier_def ErectWriteBarrier_marked)

theorem WriteBarrier_marked_card_no_store_witness:
  "card_bytes marked_state (g_card_table marked_state + card_byte 0x10008) = 0xFF
   \<and> snd (WriteBarrier 0x10008 0x10020 sample_state)
        = [StoreCell 0x10008 0x10020, StoreByte 0x80020 0xFF]
   \<and> snd (WriteBarrier 0x10008 0x10020 marked_state) = [StoreCell 0x10008 0x10020]
   \<and> card_bytes (fst (WriteBarrier 0x10008 0x10020 marked_state)) = card_bytes marked_state"
proof -
  have h: "card_bytes marked_state (g_card_table marked_state + card_byte 0x10008) = 0xFF"
    by (simp add: marked_state_def sample_state_def card_byte_def card_byte_shift_64
        drop_bit_eq_div)
  have u: "snd (WriteBarrier 0x10008 0x10020 sample_state)
        = [StoreCell 0x10008 0x10020, StoreByte 0x80020 0xFF]"
    by (simp add: WriteBarrier_def ErectWriteBarrier_def sample_state_def card_byte_def
        card_byte_shift_64 drop_bit_eq_div Let_def)
  show ?thesis
    using h u WriteBarrier_marked_card_no_store [OF h] by simp
qed

end
